theory Spec2Isabelle
  imports Complex_Main "HOL-Library.Word"
begin

section \<open>Values, errors and the outside world\<close>

text \<open>
  The development embeds \<^verbatim>\<open>utils/load_utils.py\<close> and \<^verbatim>\<open>utils/load_data.py\<close>.
  Every \<^verbatim>\<open>raise\<close> of the Python code (and of the library calls it makes) is a value
  \<open>Inl e\<close> of the result type \<open>error + 'a\<close>.

  Numbers: the data list holds machine integers (\<^verbatim>\<open>data_list.astype(int)\<close>, 64 bit), the
  sampler returns \<^verbatim>\<open>np.int32\<close>, images are \<^verbatim>\<open>np.uint8\<close>; these are words. Python's own
  integers (\<open>T\<close>, \<open>D\<close>, \<open>idx\<close>) are \<open>int\<close>. Floating-point values (\<^verbatim>\<open>np.linspace\<close>, the
  joint coordinates, the division in \<^verbatim>\<open>normalize\<close>) are modelled by exact rationals:
  rounding of \<^verbatim>\<open>float32\<close>/\<^verbatim>\<open>float64\<close> is not represented.
\<close>

datatype error =
  TypeError | ValueError | IndexError | AssertionError | FileNotFoundError | UnboundLocalError

type_synonym int32 = "32 word"
type_synonym int64 = "64 word"
type_synonym uint8 = "8 word"

text \<open>A joint array of shape \<open>(frames, 22 * D)\<close> and an image array of shape
  \<open>(frames, 1, H, W)\<close>, as nested lists (outermost axis first).\<close>

type_synonym joints = "rat list list"
type_synonym images = "uint8 list list list list"

text \<open>What \<^verbatim>\<open>np.loadtxt\<close> hands back: a one-row (or one-column) file is squeezed to one
  dimension, any other table is two-dimensional.\<close>

datatype ndarray = Arr1 "rat list" | Arr2 "rat list list"

text \<open>The transform dictionary: \<^verbatim>\<open>["resize"]["H_new"]\<close>, \<^verbatim>\<open>["resize"]["W_new"]\<close>, the
  optional key \<^verbatim>\<open>"gvar"\<close> and the entry \<^verbatim>\<open>["aug"]\<close> (\<open>None\<close> when it is Python's
  \<^verbatim>\<open>None\<close>). The parameter types \<open>'g\<close> and \<open>'a\<close> stand for the grayscale-variation
  parameters and the augmentation policy, which the loaders only pass on.\<close>

record ('g, 'a) transform_dict =
  td_H_new :: nat
  td_W_new :: nat
  td_gvar :: "'g option"
  td_aug :: "'a option"

text \<open>
  The outside world, as far as the loaders touch it:
  \<^item> \<open>env_loadtxt path\<close> is \<^verbatim>\<open>np.loadtxt(path, dtype=np.float32)\<close>;
  \<^item> \<open>env_open_resize path W H\<close> is
    \<^verbatim>\<open>np.array(Image.open(path).resize((W, H), Image.LANCZOS))\<close>, an array of \<open>H\<close> rows
    of \<open>W\<close> unsigned depth values;
  \<^item> \<open>env_grayscale_variation\<close> is \<^verbatim>\<open>utils.gvar.grayscale_variation\<close> and
    \<open>env_apply_augs\<close> is \<^verbatim>\<open>utils.augment.apply_augs\<close>; neither module is part of the
    sources at hand, so both are parameters (for the stochastic augmentation: one fixed
    draw).
\<close>

record ('g, 'a) env =
  env_loadtxt :: "string \<Rightarrow> error + ndarray"
  env_open_resize :: "string \<Rightarrow> nat \<Rightarrow> nat \<Rightarrow> error + nat list list"
  env_grayscale_variation :: "'g \<Rightarrow> nat list list \<Rightarrow> uint8 list list"
  env_apply_augs :: "'a \<Rightarrow> joints \<times> images \<Rightarrow> joints \<times> images"

subsection \<open>Python and numpy indexing\<close>

text \<open>\<^verbatim>\<open>xs[i]\<close>: a negative index counts from the end, an index outside
  \<open>[-len, len)\<close> raises \<^verbatim>\<open>IndexError\<close>.\<close>

definition py_index :: "'a list \<Rightarrow> int \<Rightarrow> error + 'a" where
  "py_index xs i =
     (if - int (length xs) \<le> i \<and> i < int (length xs)
      then Inr (xs ! nat (i mod int (length xs)))
      else Inl IndexError)"

text \<open>\<^verbatim>\<open>a[i, c]\<close> on a two-dimensional array.\<close>

definition np_index2 :: "'a list list \<Rightarrow> int \<Rightarrow> int \<Rightarrow> error + 'a" where
  "np_index2 a i c = (case py_index a i of Inl e \<Rightarrow> Inl e | Inr row \<Rightarrow> py_index row c)"

text \<open>\<^verbatim>\<open>a[idxs]\<close> with an integer index array: one entry per index, in order.\<close>

fun take_idxs :: "'a list \<Rightarrow> int list \<Rightarrow> error + 'a list" where
  "take_idxs xs [] = Inr []"
| "take_idxs xs (i # rest) =
     (case py_index xs i of
        Inl e \<Rightarrow> Inl e
      | Inr x \<Rightarrow> (case take_idxs xs rest of Inl e \<Rightarrow> Inl e | Inr ys \<Rightarrow> Inr (x # ys)))"

subsection \<open>Strings and paths\<close>

fun digits :: "nat \<Rightarrow> string" where
  "digits n = (if n < 10 then [char_of (48 + n)] else digits (n div 10) @ [char_of (48 + n mod 10)])"

text \<open>\<^verbatim>\<open>"{}".format(i)\<close> for an integer.\<close>

definition str_int :: "int \<Rightarrow> string" where
  "str_int i = (if i < 0 then CHR ''-'' # digits (nat (- i)) else digits (nat i))"

text \<open>\<^verbatim>\<open>os.path.join(a, b)\<close> on POSIX paths.\<close>

definition path_join :: "string \<Rightarrow> string \<Rightarrow> string" where
  "path_join a b =
     (if b \<noteq> [] \<and> hd b = CHR ''/'' then b
      else if a = [] \<or> last a = CHR ''/'' then a @ b
      else a @ ''/'' @ b)"

section \<open>\<^verbatim>\<open>utils/load_utils.py\<close>\<close>

subsection \<open>\<^verbatim>\<open>get_samples\<close>\<close>

text \<open>Conversion of a float to an integer type (\<^verbatim>\<open>astype\<close>) drops the fraction: it rounds
  towards zero.\<close>

definition trunc :: "rat \<Rightarrow> int" where
  "trunc q = (if q < 0 then \<lceil>q\<rceil> else \<lfloor>q\<rfloor>)"

text \<open>
  \<^verbatim>\<open>np.linspace(start, stop, num)\<close> (endpoint included), following numpy's implementation:
  with \<open>div = num - 1\<close> the entries are \<open>i * (delta / div) + start\<close> (\<open>i * delta + start\<close>
  when \<open>div\<close> is not positive), and for \<open>num > 1\<close> the last entry is overwritten by
  \<open>stop\<close>. A single sample (\<open>num = 1\<close>) is therefore \<open>start\<close>.
\<close>

definition linspace :: "int \<Rightarrow> int \<Rightarrow> nat \<Rightarrow> rat list" where
  "linspace start stop num =
     (let dv = int num - 1;
          delta = stop - start;
          y = map (\<lambda>i. (if 0 < dv then rat_of_int (int i) * (rat_of_int delta / rat_of_int dv)
                        else rat_of_int (int i) * rat_of_int delta) + rat_of_int start) [0..<num]
      in if 1 < num then y[num - 1 := rat_of_int stop] else y)"

text \<open>
  \<^verbatim>\<open>
  N = end - start + 1
  samples = np.arange(start, end + 1) if N < T else np.linspace(start, end, T)
  return samples.astype(np.int32)
  \<close>
  \<^verbatim>\<open>np.arange(start, end + 1)\<close> is \<open>[start..end']\<close>; \<^verbatim>\<open>np.linspace\<close> refuses a negative
  count with \<^verbatim>\<open>ValueError\<close>. The cast to \<^verbatim>\<open>int32\<close> keeps the low 32 bits (for the
  float branch this is what numpy does for values inside the \<^verbatim>\<open>int32\<close> range; outside
  it the result of the cast is platform dependent).
\<close>

definition get_samples :: "int \<Rightarrow> int \<Rightarrow> int \<Rightarrow> error + int32 list" where
  "get_samples start end' T =
     (let N = end' - start + 1 in
      if N < T then Inr (map word_of_int [start..end'])
      else if T < 0 then Inl ValueError
      else Inr (map (\<lambda>y. word_of_int (trunc y)) (linspace start end' (nat T))))"

text \<open>A call \<^verbatim>\<open>get_samples(*args)\<close>: Python binds the positional arguments to the three
  required parameters \<open>(start, end, T)\<close>; a call with any other number of arguments raises
  \<^verbatim>\<open>TypeError\<close> before the body runs.\<close>

definition call_get_samples :: "int list \<Rightarrow> error + int32 list" where
  "call_get_samples args =
     (case args of [start, end', T] \<Rightarrow> get_samples start end' T | _ \<Rightarrow> Inl TypeError)"

subsection \<open>\<^verbatim>\<open>normalize\<close>\<close>

text \<open>
  \<^verbatim>\<open>
  i_min, i_max = image.min(), image.max()
  denom = (i_max - i_min) if i_max > i_min else 1
  return (255 * ((image - i_min) / denom)).astype(np.uint8)
  \<close>
  The image is a two-dimensional array of unsigned depth values; \<^verbatim>\<open>min\<close> of an array
  without elements raises \<^verbatim>\<open>ValueError\<close>. \<open>rescale_pixel\<close> is the element-wise
  expression of the last line.
\<close>

definition rescale_pixel :: "nat \<Rightarrow> nat \<Rightarrow> nat \<Rightarrow> uint8" where
  "rescale_pixel i_min denom p =
     word_of_int (trunc (255 * (rat_of_nat (p - i_min) / rat_of_nat denom)))"

definition normalize_image :: "nat list list \<Rightarrow> error + uint8 list list" where
  "normalize_image img =
     (if concat img = [] then Inl ValueError
      else let i_min = Min (set (concat img));
               i_max = Max (set (concat img));
               denom = (if i_max > i_min then i_max - i_min else 1)
           in Inr (map (map (rescale_pixel i_min denom)) img))"

subsection \<open>\<^verbatim>\<open>load_joints\<close>\<close>

text \<open>\<^verbatim>\<open>row.reshape(22, -1)\<close> for a row of \<open>22 * D\<close> numbers: joint \<open>j\<close> owns the entries
  \<open>j * D, \<dots>, j * D + D - 1\<close>.\<close>

definition reshape22 :: "nat \<Rightarrow> 'a list \<Rightarrow> 'a list list" where
  "reshape22 D row = map (\<lambda>j. take D (drop (j * D) row)) [0..<22]"

definition palm_idx :: nat where
  "palm_idx = 1"

text \<open>
  \<^verbatim>\<open>
  num_frames = joint_points.shape[0]
  joint_points = joint_points.reshape(num_frames, 22, -1)
  joint_points = (joint_points - joint_points[0, palm_idx, :]).reshape(num_frames, -1)
  \<close>
  on the selected rows. The reshape fails (\<^verbatim>\<open>ValueError\<close>) when no frame was selected or
  when the row width is not a multiple of 22.
\<close>

definition recentre :: "rat list list \<Rightarrow> error + joints" where
  "recentre joint_points =
     (case joint_points of
        [] \<Rightarrow> Inl ValueError
      | first # _ \<Rightarrow>
          (let C = length first; D = C div 22 in
           if C mod 22 \<noteq> 0 then Inl ValueError
           else let jp3 = map (reshape22 D) joint_points;
                    ref = jp3 ! 0 ! palm_idx
                in Inr (map (\<lambda>frame. concat (map (\<lambda>joint. map (\<lambda>(x, r). x - r) (zip joint ref)) frame))
                         jp3)))"

text \<open>
  \<^verbatim>\<open>joint_points = np.loadtxt(joint_path, dtype=np.float32)[frame_idxs]\<close>, then the
  re-centring. A one-dimensional table indexed by the frames gives a one-dimensional
  selection, which the reshape to \<open>(num_frames, 22, -1)\<close> always refuses.
\<close>

definition load_joints ::
  "('g, 'a) env \<Rightarrow> string \<Rightarrow> int32 list \<Rightarrow> int \<Rightarrow> error + joints" where
  "load_joints env joint_path frame_idxs T =
     (case env_loadtxt env joint_path of
        Inl e \<Rightarrow> Inl e
      | Inr (Arr1 xs) \<Rightarrow>
          (case take_idxs xs (map sint frame_idxs) of Inl e \<Rightarrow> Inl e | Inr _ \<Rightarrow> Inl ValueError)
      | Inr (Arr2 table) \<Rightarrow>
          (case take_idxs table (map sint frame_idxs) of
             Inl e \<Rightarrow> Inl e
           | Inr joint_points \<Rightarrow> recentre joint_points))"

subsection \<open>\<^verbatim>\<open>load_image_sequence\<close>\<close>

text \<open>The body of the loop over \<^verbatim>\<open>enumerate(frame_idxs)\<close>: open and resize one frame,
  apply grayscale variation when the key \<^verbatim>\<open>"gvar"\<close> is present and \<^verbatim>\<open>normalize\<close>
  otherwise, and store the result as the single channel of block \<open>i\<close>.\<close>

definition file_name :: "string \<Rightarrow> int \<Rightarrow> string" where
  "file_name mode idx =
     (if mode = ''shrec'' then str_int idx @ ''_depth.png'' else ''depth_'' @ str_int idx @ ''.png'')"

definition load_frame ::
  "('g, 'a) env \<Rightarrow> string \<Rightarrow> ('g, 'a) transform_dict \<Rightarrow> string \<Rightarrow> int32 \<Rightarrow> error + uint8 list list list"
  where
  "load_frame env image_dir preprocess_dict mode idx =
     (let path = path_join image_dir (file_name mode (sint idx)) in
      case env_open_resize env path (td_W_new preprocess_dict) (td_H_new preprocess_dict) of
        Inl e \<Rightarrow> Inl e
      | Inr img \<Rightarrow>
          (case td_gvar preprocess_dict of
             Some g \<Rightarrow> Inr [env_grayscale_variation env g img]
           | None \<Rightarrow> (case normalize_image img of Inl e \<Rightarrow> Inl e | Inr n \<Rightarrow> Inr [n])))"

fun load_frames ::
  "('g, 'a) env \<Rightarrow> string \<Rightarrow> ('g, 'a) transform_dict \<Rightarrow> string \<Rightarrow> int32 list \<Rightarrow> error + images"
  where
  "load_frames env image_dir preprocess_dict mode [] = Inr []"
| "load_frames env image_dir preprocess_dict mode (idx # rest) =
     (case load_frame env image_dir preprocess_dict mode idx of
        Inl e \<Rightarrow> Inl e
      | Inr block \<Rightarrow>
          (case load_frames env image_dir preprocess_dict mode rest of
             Inl e \<Rightarrow> Inl e
           | Inr blocks \<Rightarrow> Inr (block # blocks)))"

definition load_image_sequence ::
  "('g, 'a) env \<Rightarrow> string \<Rightarrow> int32 list \<Rightarrow> int \<Rightarrow> ('g, 'a) transform_dict \<Rightarrow> string \<Rightarrow> error + images"
  where
  "load_image_sequence env image_dir frame_idxs T preprocess_dict mode =
     load_frames env image_dir preprocess_dict mode frame_idxs"

section \<open>\<^verbatim>\<open>utils/load_data.py\<close>\<close>

subsection \<open>\<^verbatim>\<open>SHREC_DHG_Dataset.get_image_joint\<close>\<close>

text \<open>
  \<^verbatim>\<open>
  num_frames = data_row[6]
  frame_idxs = get_samples(num_frames, T)
  path_identifier = "gesture_{}/finger_{}/subject_{}/essai_{}/".format(*data_row[:4])
  joint_path = os.path.join(base_dir, path_identifier,
      "skeletons_image.txt" if D == 2 else "skeletons_world.txt")
  joint_points = load_joints(joint_path, frame_idxs, T)
  image_folder_path = os.path.join(base_dir, path_identifier)
  image_sequence = load_image_sequence(image_folder_path, frame_idxs, T, transform_dict)
  return joint_points, image_sequence
  \<close>
  The sampler is called with the two arguments \<open>(num_frames, T)\<close>.
\<close>

definition path_identifier :: "int64 list \<Rightarrow> error + string" where
  "path_identifier data_row =
     (case take 4 data_row of
        [g, f, s, e] \<Rightarrow>
          Inr (''gesture_'' @ str_int (sint g) @ ''/finger_'' @ str_int (sint f)
               @ ''/subject_'' @ str_int (sint s) @ ''/essai_'' @ str_int (sint e) @ ''/'')
      | _ \<Rightarrow> Inl IndexError)"

definition get_image_joint ::
  "('g, 'a) env \<Rightarrow> int64 list \<Rightarrow> string \<Rightarrow> int \<Rightarrow> int \<Rightarrow> ('g, 'a) transform_dict
     \<Rightarrow> error + joints \<times> images" where
  "get_image_joint env data_row base_dir T D transform_dict =
     (case py_index data_row 6 of
        Inl e \<Rightarrow> Inl e
      | Inr num_frames \<Rightarrow>
     (case call_get_samples [sint num_frames, T] of
        Inl e \<Rightarrow> Inl e
      | Inr frame_idxs \<Rightarrow>
     (case path_identifier data_row of
        Inl e \<Rightarrow> Inl e
      | Inr ident \<Rightarrow>
     (let joint_path = path_join (path_join base_dir ident)
                         (if D = 2 then ''skeletons_image.txt'' else ''skeletons_world.txt'') in
      case load_joints env joint_path frame_idxs T of
        Inl e \<Rightarrow> Inl e
      | Inr joint_points \<Rightarrow>
     (let image_folder_path = path_join base_dir ident in
      case load_image_sequence env image_folder_path frame_idxs T transform_dict ''shrec'' of
        Inl e \<Rightarrow> Inl e
      | Inr image_sequence \<Rightarrow> Inr (joint_points, image_sequence))))))"

subsection \<open>The dataset object\<close>

text \<open>The cache: the two parallel lists \<^verbatim>\<open>cache["joint"]\<close> and \<^verbatim>\<open>cache["image"]\<close>.\<close>

record cache =
  cache_joint :: "joints list"
  cache_image :: "images list"

text \<open>The attributes set by \<^verbatim>\<open>__init__\<close>; \<open>self_data_list\<close> is the data list after
  \<^verbatim>\<open>astype(int)\<close>.\<close>

record ('g, 'a) dataset =
  self_data_list :: "int64 list list"
  self_base_dir :: string
  self_T :: int
  self_D :: int
  self_num_classes :: int
  self_transform_dict :: "('g, 'a) transform_dict"
  self_cache :: "cache option"

text \<open>\<^verbatim>\<open>__init__\<close>:
  \<^verbatim>\<open>assert num_classes in [14, 28], "Invalid number of classes for SHREC-DHG"\<close>,
  then the attributes are stored.\<close>

definition init_dataset ::
  "int64 list list \<Rightarrow> string \<Rightarrow> int \<Rightarrow> int \<Rightarrow> int \<Rightarrow> ('g, 'a) transform_dict \<Rightarrow> cache option
     \<Rightarrow> error + ('g, 'a) dataset" where
  "init_dataset data_list base_dir D T num_classes transform_dict cache =
     (if num_classes = 14 \<or> num_classes = 28
      then Inr \<lparr>self_data_list = data_list, self_base_dir = base_dir, self_T = T, self_D = D,
                self_num_classes = num_classes, self_transform_dict = transform_dict,
                self_cache = cache\<rparr>
      else Inl AssertionError)"

text \<open>\<^verbatim>\<open>__len__\<close>.\<close>

definition len_dataset :: "('g, 'a) dataset \<Rightarrow> nat" where
  "len_dataset self = length (self_data_list self)"

subsection \<open>\<^verbatim>\<open>SHREC_DHG_Dataset.__getitem__\<close>\<close>

text \<open>
  Lines 63 to 66: the label. When the class count is neither 14 nor 28 no branch assigns
  \<^verbatim>\<open>label\<close> (the result \<open>None\<close>), and the \<^verbatim>\<open>return\<close> statement raises.
\<close>

definition select_label :: "('g, 'a) dataset \<Rightarrow> int \<Rightarrow> error + int64 option" where
  "select_label self idx =
     (if self_num_classes self = 14 then
        (case np_index2 (self_data_list self) idx 4 of Inl e \<Rightarrow> Inl e | Inr v \<Rightarrow> Inr (Some (v - 1)))
      else if self_num_classes self = 28 then
        (case np_index2 (self_data_list self) idx 5 of Inl e \<Rightarrow> Inl e | Inr v \<Rightarrow> Inr (Some (v - 1)))
      else Inr None)"

text \<open>
  Lines 70 to 76: the raw pair, from the cache at position \<^verbatim>\<open>self.data_list[idx, 7]\<close> when
  a cache is attached, from \<^verbatim>\<open>get_image_joint\<close> on the row otherwise.
\<close>

definition fetch_raw ::
  "('g, 'a) env \<Rightarrow> ('g, 'a) dataset \<Rightarrow> int \<Rightarrow> error + joints \<times> images" where
  "fetch_raw env self idx =
     (case self_cache self of
        Some c \<Rightarrow>
          (case np_index2 (self_data_list self) idx 7 of
             Inl e \<Rightarrow> Inl e
           | Inr c_idx \<Rightarrow>
               (case py_index (cache_joint c) (sint c_idx) of
                  Inl e \<Rightarrow> Inl e
                | Inr joint_points \<Rightarrow>
                    (case py_index (cache_image c) (sint c_idx) of
                       Inl e \<Rightarrow> Inl e
                     | Inr image_sequence \<Rightarrow> Inr (joint_points, image_sequence))))
      | None \<Rightarrow>
          (case py_index (self_data_list self) idx of
             Inl e \<Rightarrow> Inl e
           | Inr data_row \<Rightarrow>
               get_image_joint env data_row (self_base_dir self) (self_T self) (self_D self)
                 (self_transform_dict self)))"

text \<open>Lines 78 and 79: the augmentation, when one is configured.\<close>

definition augment ::
  "('g, 'a) env \<Rightarrow> ('g, 'a) dataset \<Rightarrow> joints \<times> images \<Rightarrow> joints \<times> images" where
  "augment env self raw =
     (case td_aug (self_transform_dict self) of
        None \<Rightarrow> raw
      | Some a \<Rightarrow> env_apply_augs env a raw)"

text \<open>Line 83: \<^verbatim>\<open>(image_sequence / 255).astype(np.float32)\<close>.\<close>

definition scale_images :: "images \<Rightarrow> rat list list list list" where
  "scale_images image_sequence =
     map (map (map (map (\<lambda>p. rat_of_nat (unat p) / 255)))) image_sequence"

text \<open>
  \<^verbatim>\<open>np.pad(a, ((0, k), (0, 0), \<dots>), mode="constant")\<close>: \<open>k\<close> zero entries of the shape of
  the array's entries are appended along the first axis. (An array without entries is the
  empty list here and carries no entry shape.)
\<close>

definition pad_joints :: "nat \<Rightarrow> rat list list \<Rightarrow> rat list list" where
  "pad_joints k a =
     a @ replicate k (case a of [] \<Rightarrow> [] | r # _ \<Rightarrow> map (\<lambda>_. 0) r)"

definition pad_images :: "nat \<Rightarrow> rat list list list list \<Rightarrow> rat list list list list" where
  "pad_images k a =
     a @ replicate k (case a of [] \<Rightarrow> [] | f # _ \<Rightarrow> map (map (map (\<lambda>_. 0))) f)"

text \<open>
  The whole method. The frame count read from the data list in line 68 is overwritten in
  line 85 by \<^verbatim>\<open>joint_points.shape[0]\<close> before it is used; \<^verbatim>\<open>astype(np.float32)\<close> on the
  joints is the identity on the rationals.
\<close>

definition getitem ::
  "('g, 'a) env \<Rightarrow> ('g, 'a) dataset \<Rightarrow> int
     \<Rightarrow> error + rat list list \<times> rat list list list list \<times> int64" where
  "getitem env self idx =
     (case select_label self idx of
        Inl e \<Rightarrow> Inl e
      | Inr label \<Rightarrow>
     (case np_index2 (self_data_list self) idx 6 of
        Inl e \<Rightarrow> Inl e
      | Inr num_frames_listed \<Rightarrow>
     (case fetch_raw env self idx of
        Inl e \<Rightarrow> Inl e
      | Inr raw \<Rightarrow>
     (let augmented = augment env self raw;
          joint_points = fst augmented;
          image_sequence = scale_images (snd augmented);
          num_frames = int (length joint_points);
          padded =
            (if num_frames < self_T self
             then (pad_joints (nat (self_T self - num_frames)) joint_points,
                   pad_images (nat (self_T self - num_frames)) image_sequence)
             else (joint_points, image_sequence))
      in case label of
           None \<Rightarrow> Inl UnboundLocalError
         | Some l \<Rightarrow> Inr (fst padded, snd padded, l)))))"

subsection \<open>\<^verbatim>\<open>init_cache\<close>\<close>

text \<open>
  The loop \<^verbatim>\<open>for (joint_points, image_sequence) in pool.imap(func=loader_fn, iterable=data_list)\<close>:
  \<^verbatim>\<open>imap\<close> yields the results in the order of the rows, and the first row (in that order)
  whose loader raised re-raises its error in the loop.
\<close>

fun imap_append ::
  "('r \<Rightarrow> error + joints \<times> images) \<Rightarrow> 'r list \<Rightarrow> cache \<Rightarrow> error + cache" where
  "imap_append loader_fn [] c = Inr c"
| "imap_append loader_fn (row # rest) c =
     (case loader_fn row of
        Inl e \<Rightarrow> Inl e
      | Inr (joint_points, image_sequence) \<Rightarrow>
          imap_append loader_fn rest
            (c\<lparr>cache_joint := cache_joint c @ [joint_points],
               cache_image := cache_image c @ [image_sequence]\<rparr>))"

text \<open>\<^verbatim>\<open>mp.Pool(n_cache_workers)\<close> raises \<^verbatim>\<open>ValueError\<close> for fewer than one worker.\<close>

definition init_cache ::
  "('g, 'a) env \<Rightarrow> int64 list list \<Rightarrow> string \<Rightarrow> int \<Rightarrow> int \<Rightarrow> ('g, 'a) transform_dict \<Rightarrow> int
     \<Rightarrow> error + cache" where
  "init_cache env data_list base_dir T D transform_dict n_cache_workers =
     (if n_cache_workers < 1 then Inl ValueError
      else imap_append (\<lambda>data_row. get_image_joint env data_row base_dir T D transform_dict)
             data_list \<lparr>cache_joint = [], cache_image = []\<rparr>)"

section \<open>Closed forms used in the proofs\<close>





section \<open>The retrieval with the listed frame count\<close>

text \<open>
  Follows the specification's words (``a sample's label and frame count are always read
  from the data list, never recomputed''): \<^verbatim>\<open>__getitem__\<close> without the assignment of
  line 85, so that the padding is decided by the frame count read from the data list in
  line 68. It is only compared with \<open>getitem\<close>.
\<close>

definition getitem_listed_count ::
  "('g, 'a) env \<Rightarrow> ('g, 'a) dataset \<Rightarrow> int
     \<Rightarrow> error + rat list list \<times> rat list list list list \<times> int64" where
  "getitem_listed_count env self idx =
     (case select_label self idx of
        Inl e \<Rightarrow> Inl e
      | Inr label \<Rightarrow>
     (case np_index2 (self_data_list self) idx 6 of
        Inl e \<Rightarrow> Inl e
      | Inr num_frames_listed \<Rightarrow>
     (case fetch_raw env self idx of
        Inl e \<Rightarrow> Inl e
      | Inr raw \<Rightarrow>
     (let augmented = augment env self raw;
          joint_points = fst augmented;
          image_sequence = scale_images (snd augmented);
          num_frames = sint num_frames_listed;
          padded =
            (if num_frames < self_T self
             then (pad_joints (nat (self_T self - num_frames)) joint_points,
                   pad_images (nat (self_T self - num_frames)) image_sequence)
             else (joint_points, image_sequence))
      in case label of
           None \<Rightarrow> Inl UnboundLocalError
         | Some l \<Rightarrow> Inr (fst padded, snd padded, l)))))"

section \<open>Example objects\<close>

text \<open>An outside world without files and with the identity as augmentation, a transform
  dictionary without augmentation, a cache holding one trial of three frames (joint rows
  of two numbers, images of one row of two pixels), and a dataset over the single row
  \<open>(1, 1, 3, 1, 5, 12, 10, 0)\<close>.\<close>

definition env0 :: "(unit, unit) env" where
  "env0 = \<lparr>env_loadtxt = (\<lambda>_. Inl FileNotFoundError),
            env_open_resize = (\<lambda>_ _ _. Inl FileNotFoundError),
            env_grayscale_variation = (\<lambda>_ _. []),
            env_apply_augs = (\<lambda>_ raw. raw)\<rparr>"

definition td0 :: "(unit, unit) transform_dict" where
  "td0 = \<lparr>td_H_new = 1, td_W_new = 2, td_gvar = None, td_aug = None\<rparr>"

definition cache0 :: cache where
  "cache0 = \<lparr>cache_joint = [[[1, 2], [3, 4], [5, 6]]],
              cache_image = [[[[[10, 20]]], [[[30, 40]]], [[[50, 60]]]]]\<rparr>"

definition dataset0 :: "int \<Rightarrow> int \<Rightarrow> cache option \<Rightarrow> (unit, unit) dataset" where
  "dataset0 T num_classes cache =
     \<lparr>self_data_list = [[1, 1, 3, 1, 5, 12, 10, 0]], self_base_dir = ''data'', self_T = T,
      self_D = 2, self_num_classes = num_classes, self_transform_dict = td0, self_cache = cache\<rparr>"

text \<open>A joint file of two frames with \<open>D = 1\<close>, all coordinates 5 in the first frame and
  7 in the second, and an outside world that holds it.\<close>

definition table0 :: "rat list list" where
  "table0 = [replicate 22 5, replicate 22 7]"

definition env_joints0 :: "(unit, unit) env" where
  "env_joints0 = env0\<lparr>env_loadtxt := (\<lambda>_. Inr (Arr2 table0))\<rparr>"

section \<open>The frame sampler\<close>























section \<open>Image normalisation\<close>

lemma trunc_scale:
  assumes "0 < d"
  shows "trunc (255 * (rat_of_nat a / rat_of_nat d)) = int ((255 * a) div d)"
proof -
  have e: "255 * (rat_of_nat a / rat_of_nat d) = rat_of_int (int (255 * a)) / rat_of_int (int d)"
    by simp
  have "0 \<le> rat_of_int (int (255 * a)) / rat_of_int (int d)"
    using assms by (intro divide_nonneg_pos) simp_all
  then have n: "\<not> rat_of_int (int (255 * a)) / rat_of_int (int d) < 0"
    by (simp only: not_less)
  show ?thesis
    unfolding e trunc_def if_not_P [OF n] floor_divide_of_int_eq
    by (simp add: zdiv_int)
qed

lemma unat_uint8: "n \<le> 255 \<Longrightarrow> unat (word_of_int (int n) :: uint8) = n"
proof -
  assume a: "n \<le> 255"
  have "unat (word_of_nat n :: uint8) = n mod 2 ^ LENGTH(8)"
    by (rule unat_of_nat)
  also have "\<dots> = n" using a by simp
  finally show ?thesis by simp
qed

lemma scaled_le_255:
  assumes "lo < hi" "p \<le> hi"
  shows "(255 * (p - lo)) div (hi - lo) \<le> (255::nat)"
proof -
  have "255 * (p - lo) \<le> 255 * (hi - lo)" using assms by simp
  then have "(255 * (p - lo)) div (hi - lo) \<le> (255 * (hi - lo)) div (hi - lo)"
    by (rule div_le_mono)
  also have "(255 * (hi - lo)) div (hi - lo) = 255" using assms by simp
  finally show ?thesis .
qed

lemma rescale_pixel_unat:
  assumes "lo < hi" "p \<le> hi"
  shows "unat (rescale_pixel lo (hi - lo) p) = (255 * (p - lo)) div (hi - lo)"
proof -
  have d: "0 < hi - lo" using assms by simp
  show ?thesis
    unfolding rescale_pixel_def trunc_scale [OF d]
    by (rule unat_uint8) (rule scaled_le_255 [OF assms])
qed

lemma rescale_pixel_min: "rescale_pixel lo d lo = 0"
  by (simp add: rescale_pixel_def trunc_def)

lemma rescale_pixel_max:
  assumes "lo < hi"
  shows "unat (rescale_pixel lo (hi - lo) hi) = 255"
proof -
  have "unat (rescale_pixel lo (hi - lo) hi) = (255 * (hi - lo)) div (hi - lo)"
    by (rule rescale_pixel_unat [OF assms]) simp
  also have "\<dots> = 255" using assms by simp
  finally show ?thesis .
qed

lemma rescale_pixel_le:
  assumes "lo < hi" "p \<le> hi"
  shows "unat (rescale_pixel lo (hi - lo) p) \<le> 255"
  unfolding rescale_pixel_unat [OF assms] by (rule scaled_le_255 [OF assms])

lemma normalize_image_value:
  assumes "concat img \<noteq> []"
  shows "normalize_image img
         = Inr (map (map (rescale_pixel (Min (set (concat img)))
               (if Min (set (concat img)) < Max (set (concat img))
                then Max (set (concat img)) - Min (set (concat img)) else 1))) img)"
  using assms unfolding normalize_image_def Let_def by (simp only: if_False)

lemma map_map_const:
  assumes "\<And>p. p \<in> set (concat img) \<Longrightarrow> f p = c"
  shows "map (map f) img = map (map (\<lambda>_. c)) img"
proof (rule map_cong [OF refl], rule map_cong [OF refl])
  fix row p assume "row \<in> set img" "p \<in> set row"
  then have "p \<in> set (concat img)" by auto
  then show "f p = c" by (rule assms)
qed

lemma concat_map_map: "concat (map (map f) xss) = map f (concat xss)"
  by (induction xss) simp_all


lemma normalize_image_constant:
  assumes ne: "concat img \<noteq> []" and c: "\<forall>p\<in>set (concat img). p = c"
  shows "normalize_image img = Inr (map (map (\<lambda>_. 0)) img)"
proof -
  let ?S = "set (concat img)"
  have fin: "finite ?S" and nem: "?S \<noteq> {}" using ne by simp_all
  have lo: "Min ?S = c" using Min_in [OF fin nem] c by blast
  have hi: "Max ?S = c" using Max_in [OF fin nem] c by blast
  have "map (map (rescale_pixel c 1)) img = map (map (\<lambda>_. 0)) img"
  proof (rule map_map_const)
    fix p assume "p \<in> set (concat img)"
    then have "p = c" using c by blast
    then show "rescale_pixel c 1 p = 0" by (simp only: rescale_pixel_min)
  qed
  then show ?thesis
    unfolding normalize_image_value [OF ne] lo hi by simp
qed

lemma normalize_image_nonconstant:
  assumes ne: "concat img \<noteq> []"
      and p: "p \<in> set (concat img)" and q: "q \<in> set (concat img)" and pq: "p \<noteq> q"
  shows "\<exists>out. normalize_image img = Inr out \<and> map length out = map length img
           \<and> Min (unat ` set (concat out)) = 0 \<and> Max (unat ` set (concat out)) = 255"
proof -
  let ?S = "set (concat img)"
  let ?lo = "Min ?S" and ?hi = "Max ?S"
  let ?f = "rescale_pixel ?lo (?hi - ?lo)"
  let ?out = "map (map ?f) img"
  have fin: "finite ?S" and nem: "?S \<noteq> {}" using ne by simp_all
  have lt: "?lo < ?hi"
  proof (rule ccontr)
    assume "\<not> ?lo < ?hi"
    moreover have "?lo \<le> p" "p \<le> ?hi" "?lo \<le> q" "q \<le> ?hi"
      using fin p q by (simp_all only: Min_le Max_ge)
    ultimately show False using pq by linarith
  qed
  have val: "normalize_image img = Inr ?out"
    unfolding normalize_image_value [OF ne] using lt by (simp only: if_True)
  have len: "map length ?out = map length img"
    by (simp add: comp_def)
  have img_eq: "unat ` set (concat ?out) = (\<lambda>p. unat (?f p)) ` ?S"
    unfolding concat_map_map by (simp only: set_map image_image)
  have fin': "finite ((\<lambda>p. unat (?f p)) ` ?S)" using fin by (rule finite_imageI)
  have "Min ((\<lambda>p. unat (?f p)) ` ?S) = 0"
  proof (rule Min_eqI [OF fin'])
    show "0 \<le> y" for y :: nat by simp
    have "unat (?f ?lo) = 0" by (simp only: rescale_pixel_min unat_0)
    moreover have "?lo \<in> ?S" by (rule Min_in [OF fin nem])
    ultimately show "0 \<in> (\<lambda>p. unat (?f p)) ` ?S" by (metis imageI)
  qed
  moreover have "Max ((\<lambda>p. unat (?f p)) ` ?S) = 255"
  proof (rule Max_eqI [OF fin'])
    fix y assume "y \<in> (\<lambda>p. unat (?f p)) ` ?S"
    then obtain r where r: "r \<in> ?S" "y = unat (?f r)" by blast
    have "r \<le> ?hi" using fin r(1) by (simp only: Max_ge)
    then show "y \<le> 255" unfolding r(2) by (rule rescale_pixel_le [OF lt])
  next
    have "unat (?f ?hi) = 255" by (rule rescale_pixel_max [OF lt])
    moreover have "?hi \<in> ?S" by (rule Max_in [OF fin nem])
    ultimately show "255 \<in> (\<lambda>p. unat (?f p)) ` ?S" by (metis imageI)
  qed
  ultimately have mm: "Min (unat ` set (concat ?out)) = 0" "Max (unat ` set (concat ?out)) = 255"
    unfolding img_eq by blast+
  show ?thesis
  proof (intro exI conjI)
    show "normalize_image img = Inr ?out" by (fact val)
    show "map length ?out = map length img" by (fact len)
    show "Min (unat ` set (concat ?out)) = 0" by (fact mm(1))
    show "Max (unat ` set (concat ?out)) = 255" by (fact mm(2))
  qed
qed

text \<open>
  Claim C2, as amended. For an image with at least one pixel: when all pixels are equal the
  result is the all-zero image of the same shape (the denominator is 1, nothing is divided
  by zero); when two pixels differ the result has the shape of the input, minimum 0 and
  maximum 255.
\<close>

theorem normalize_image_amended:
  assumes "concat img \<noteq> []"
  shows "((\<forall>p\<in>set (concat img). p = c) \<longrightarrow> normalize_image img = Inr (map (map (\<lambda>_. 0)) img))
       \<and> ((\<exists>p\<in>set (concat img). \<exists>q\<in>set (concat img). p \<noteq> q) \<longrightarrow>
            (\<exists>out. normalize_image img = Inr out \<and> map length out = map length img
               \<and> Min (unat ` set (concat out)) = 0 \<and> Max (unat ` set (concat out)) = 255))"
proof (intro conjI impI)
  assume "\<forall>p\<in>set (concat img). p = c"
  then show "normalize_image img = Inr (map (map (\<lambda>_. 0)) img)"
    by (rule normalize_image_constant [OF assms])
next
  assume "\<exists>p\<in>set (concat img). \<exists>q\<in>set (concat img). p \<noteq> q"
  then obtain p q where "p \<in> set (concat img)" "q \<in> set (concat img)" "p \<noteq> q" by blast
  then show "\<exists>out. normalize_image img = Inr out \<and> map length out = map length img
               \<and> Min (unat ` set (concat out)) = 0 \<and> Max (unat ` set (concat out)) = 255"
    by (rule normalize_image_nonconstant [OF assms])
qed

theorem normalize_image_amended_witness:
  "normalize_image [[7, 7], [7, 7]] = Inr [[0, 0], [0, 0]]
   \<and> (\<exists>out. normalize_image [[10, 20], [30, 40]] = Inr out
          \<and> map length out = map length [[10, 20], [30, 40 :: nat]]
          \<and> Min (unat ` set (concat out)) = 0 \<and> Max (unat ` set (concat out)) = 255)"
proof -
  have n1: "concat [[7, 7], [7, 7 :: nat]] \<noteq> []" by simp
  have n2: "concat [[10, 20], [30, 40 :: nat]] \<noteq> []" by simp
  have a: "\<forall>p\<in>set (concat [[7, 7], [7, 7 :: nat]]). p = 7" by simp
  have b: "\<exists>p\<in>set (concat [[10, 20], [30, 40 :: nat]]). \<exists>q\<in>set (concat [[10, 20], [30, 40]]). p \<noteq> q"
    by (rule bexI [of _ 10], rule bexI [of _ 20]) simp_all
  have "normalize_image [[7, 7], [7, 7]] = Inr (map (map (\<lambda>_. 0)) [[7, 7], [7, 7 :: nat]])"
    using normalize_image_amended [OF n1, of 7] a by blast
  then have 1: "normalize_image [[7, 7], [7, 7]] = Inr [[0, 0], [0, 0]]" by simp
  have 2: "\<exists>out. normalize_image [[10, 20], [30, 40]] = Inr out
          \<and> map length out = map length [[10, 20], [30, 40 :: nat]]
          \<and> Min (unat ` set (concat out)) = 0 \<and> Max (unat ` set (concat out)) = 255"
    using normalize_image_amended [OF n2, of 0] b by blast
  from 1 2 show ?thesis by (rule conjI)
qed

text \<open>
  Claim C2 as stated fails for a constant image: the image of four pixels of value 7 comes
  back as four zeros, not unchanged.
\<close>

theorem normalize_image_counterexample:
  "normalize_image [[7, 7], [7, 7]] = Inr [[0, 0], [0, 0]]
   \<and> normalize_image [[7, 7], [7, 7]] \<noteq> Inr [[7, 7], [7, 7]]"
  by code_simp

section \<open>The dataset\<close>






lemma py_index_in_range:
  assumes "0 \<le> i" "i < int (length xs)"
  shows "py_index xs i = Inr (xs ! nat i)"
  using assms by (simp add: py_index_def)

lemma py_index_Inr_iff:
  "(\<exists>x. py_index xs i = Inr x) \<longleftrightarrow> - int (length xs) \<le> i \<and> i < int (length xs)"
  by (simp add: py_index_def)

lemma call_get_samples_two: "call_get_samples [a, b] = Inl TypeError"
  by (simp add: call_get_samples_def)

lemma get_image_joint_raises:
  "get_image_joint env data_row base_dir T D transform_dict
   = (if 6 < length data_row then Inl TypeError else Inl IndexError)"
  by (simp add: get_image_joint_def py_index_def call_get_samples_two)

lemma imap_append_first_error:
  assumes "loader_fn row = Inl e"
  shows "imap_append loader_fn (row # rest) c = Inl e"
  using assms by simp

lemma init_cache_raises:
  assumes "1 \<le> n_cache_workers"
  shows "init_cache env (data_row # rest) base_dir T D transform_dict n_cache_workers
         = (if 6 < length data_row then Inl TypeError else Inl IndexError)"
  using assms by (simp add: init_cache_def get_image_joint_raises)

lemma imap_append_in_order:
  assumes "\<forall>row\<in>set data_list. loader_fn row = Inr (f row, g row)"
  shows "imap_append loader_fn data_list c
         = Inr (c\<lparr>cache_joint := cache_joint c @ map f data_list,
                  cache_image := cache_image c @ map g data_list\<rparr>)"
  using assms by (induction data_list arbitrary: c) simp_all

lemma init_cache_empty:
  "init_cache env [] base_dir T D transform_dict n_cache_workers
   = (if n_cache_workers < 1 then Inl ValueError else Inr \<lparr>cache_joint = [], cache_image = []\<rparr>)"
  by (simp add: init_cache_def)

text \<open>
  Claim C1. For the row \<open>(1, 1, 3, 1, 5, 12, 10, 0)\<close> with \<open>T = 8\<close>, 14 classes,
  \<open>D = 2\<close> and no cache, the constructor accepts the configuration, and retrieval of
  index 0 raises \<^verbatim>\<open>TypeError\<close>: \<^verbatim>\<open>get_image_joint\<close> calls the three-parameter sampler
  with two arguments. No indices are sampled and no label or tensor is returned.
\<close>

theorem getitem_scenario_raises:
  "init_dataset [[1, 1, 3, 1, 5, 12, 10, 0]] base_dir 2 8 14 transform_dict None
     = Inr \<lparr>self_data_list = [[1, 1, 3, 1, 5, 12, 10, 0]], self_base_dir = base_dir, self_T = 8,
            self_D = 2, self_num_classes = 14, self_transform_dict = transform_dict,
            self_cache = None\<rparr>
   \<and> getitem env \<lparr>self_data_list = [[1, 1, 3, 1, 5, 12, 10, 0]], self_base_dir = base_dir,
            self_T = 8, self_D = 2, self_num_classes = 14, self_transform_dict = transform_dict,
            self_cache = None\<rparr> 0 = Inl TypeError"
  by (simp add: init_dataset_def getitem_def select_label_def np_index2_def py_index_def
        fetch_raw_def get_image_joint_raises)

text \<open>
  Claim C4. For the same row the direct loading path raises \<^verbatim>\<open>TypeError\<close> and computes
  no pair, whereas the cached path returns the pair stored at position
  \<open>original_index\<close>: the two paths do not agree.
\<close>

theorem fetch_raw_direct_raises:
  "fetch_raw env \<lparr>self_data_list = [[1, 1, 3, 1, 5, 12, 10, 0]], self_base_dir = base_dir,
            self_T = 8, self_D = 2, self_num_classes = 14, self_transform_dict = transform_dict,
            self_cache = None\<rparr> 0 = Inl TypeError
   \<and> fetch_raw env \<lparr>self_data_list = [[1, 1, 3, 1, 5, 12, 10, 0]], self_base_dir = base_dir,
            self_T = 8, self_D = 2, self_num_classes = 14, self_transform_dict = transform_dict,
            self_cache = Some \<lparr>cache_joint = [joint_points], cache_image = [image_sequence]\<rparr>\<rparr> 0
       = Inr (joint_points, image_sequence)"
  by (simp add: fetch_raw_def np_index2_def py_index_def get_image_joint_raises)

text \<open>
  Claim C9. On the data list with the single row \<open>(1, 1, 3, 1, 5, 12, 10)\<close> the cache
  builder raises \<^verbatim>\<open>TypeError\<close> (the per-row loader is \<^verbatim>\<open>get_image_joint\<close>) and returns no
  cache.
\<close>

theorem init_cache_scenario_raises:
  "init_cache env [[1, 1, 3, 1, 5, 12, 10]] base_dir 8 2 transform_dict 4 = Inl TypeError"
  by (simp add: init_cache_raises)

lemma get_samples_scenario: "get_samples 0 9 8 = Inr [0, 1, 2, 3, 5, 6, 7, 9]"
  by code_simp


lemma fetch_raw_row:
  assumes "fetch_raw env self idx = Inr raw"
  shows "\<exists>row. py_index (self_data_list self) idx = Inr row \<and> 7 < length row"
proof (cases "self_cache self")
  case None
  then show ?thesis
    using assms by (simp add: fetch_raw_def get_image_joint_raises split: sum.splits if_splits)
next
  case (Some c)
  then obtain row c_idx where row: "py_index (self_data_list self) idx = Inr row"
    and c: "py_index row 7 = Inr c_idx"
    using assms by (auto simp: fetch_raw_def np_index2_def split: sum.splits)
  from c have "7 < int (length row)"
    by (simp add: py_index_def split: if_splits)
  with row show ?thesis by auto
qed

lemma np_index2_row:
  assumes "py_index a i = Inr row" "0 \<le> c" "c < int (length row)"
  shows "np_index2 a i c = Inr (row ! nat c)"
  using assms by (simp add: np_index2_def py_index_in_range)

lemma select_label_row:
  assumes "py_index (self_data_list self) idx = Inr row" "7 < length row"
      and "self_num_classes self = 14 \<or> self_num_classes self = 28"
  shows "select_label self idx
         = Inr (Some (if self_num_classes self = 14 then row ! 4 - 1 else row ! 5 - 1))"
proof -
  have 4: "np_index2 (self_data_list self) idx 4 = Inr (row ! 4)"
    using np_index2_row [OF assms(1), of 4] assms(2) by simp
  have 5: "np_index2 (self_data_list self) idx 5 = Inr (row ! 5)"
    using np_index2_row [OF assms(1), of 5] assms(2) by simp
  show ?thesis using assms(3) by (auto simp: select_label_def 4 5)
qed

lemma getitem_value:
  assumes "select_label self idx = Inr (Some l)"
      and "np_index2 (self_data_list self) idx 6 = Inr nf"
      and "fetch_raw env self idx = Inr raw"
      and "augment env self raw = (j, im)"
  shows "getitem env self idx
         = Inr (if int (length j) < self_T self
                then (pad_joints (nat (self_T self - int (length j))) j,
                      pad_images (nat (self_T self - int (length j))) (scale_images im), l)
                else (j, scale_images im, l))"
  using assms by (simp add: getitem_def Let_def)

lemma getitem_fetched:
  assumes "self_num_classes self = 14 \<or> self_num_classes self = 28"
      and "py_index (self_data_list self) idx = Inr row"
      and "fetch_raw env self idx = Inr raw"
      and "augment env self raw = (j, im)"
  shows "getitem env self idx
         = Inr (if int (length j) < self_T self
                then (pad_joints (nat (self_T self - int (length j))) j,
                      pad_images (nat (self_T self - int (length j))) (scale_images im),
                      if self_num_classes self = 14 then row ! 4 - 1 else row ! 5 - 1)
                else (j, scale_images im,
                      if self_num_classes self = 14 then row ! 4 - 1 else row ! 5 - 1))"
proof -
  obtain row' where r: "py_index (self_data_list self) idx = Inr row'" "7 < length row'"
    using fetch_raw_row [OF assms(3)] by blast
  with assms(2) have len: "7 < length row" by simp
  have 6: "np_index2 (self_data_list self) idx 6 = Inr (row ! 6)"
    using np_index2_row [OF assms(2), of 6] len by simp
  show ?thesis
    by (rule getitem_value [OF select_label_row [OF assms(2) len assms(1)] 6 assms(3,4)])
qed

lemma init_dataset_Inr:
  assumes "init_dataset data_list base_dir D T num_classes transform_dict cache = Inr self"
  shows "self_data_list self = data_list" "self_T self = T" "self_num_classes self = num_classes"
        "self_transform_dict self = transform_dict" "self_cache self = cache"
        "num_classes = 14 \<or> num_classes = 28"
  using assms by (auto simp: init_dataset_def split: if_splits)

lemma length_scale_images: "length (scale_images im) = length im"
  by (simp add: scale_images_def)

lemma length_pad_joints: "length (pad_joints k a) = length a + k"
  by (simp add: pad_joints_def)









text \<open>
  Claim C10. For a dataset built by the constructor: whenever the raw pair is fetched and
  the joint sequence (after the optional augmentation) has at least \<open>T\<close> frames, the
  retrieval returns tensors with exactly the frame counts of the two sequences; without a
  configured augmentation these are the frame counts of the loaded (or cached) pair.
  Nothing is ever cut off.
\<close>

theorem no_truncation:
  assumes "init_dataset data_list base_dir D T num_classes transform_dict cache = Inr self"
      and "fetch_raw env self idx = Inr raw"
      and "augment env self raw = (j, im)"
      and "T \<le> int (length j)"
  shows "\<exists>jt it l. getitem env self idx = Inr (jt, it, l)
           \<and> length jt = length j \<and> length it = length im
           \<and> (td_aug transform_dict = None \<longrightarrow>
                 length jt = length (fst raw) \<and> length it = length (snd raw))"
proof -
  note ds = init_dataset_Inr [OF assms(1)]
  obtain row where row: "py_index (self_data_list self) idx = Inr row"
    using fetch_raw_row [OF assms(2)] by blast
  let ?l = "if self_num_classes self = 14 then row ! 4 - 1 else row ! 5 - 1"
  have cls: "self_num_classes self = 14 \<or> self_num_classes self = 28"
    using ds(3,6) by simp
  have val: "getitem env self idx = Inr (j, scale_images im, ?l)"
    using getitem_fetched [OF cls row assms(2,3)] assms(4) ds(2) by simp
  have raw: "td_aug transform_dict = None \<longrightarrow>
               length j = length (fst raw) \<and> length (scale_images im) = length (snd raw)"
    using assms(3) ds(4) by (auto simp: augment_def length_scale_images)
  show ?thesis
  proof (intro exI conjI)
    show "getitem env self idx = Inr (j, scale_images im, ?l)" by (fact val)
    show "length j = length j" by simp
    show "length (scale_images im) = length im" by (rule length_scale_images)
    show "td_aug transform_dict = None \<longrightarrow>
               length j = length (fst raw) \<and> length (scale_images im) = length (snd raw)"
      by (fact raw)
  qed
qed

text \<open>
  Claim C7. The constructor raises exactly when the class count is neither 14 nor 28.
  For a dataset it built, whenever the raw pair of row \<open>idx\<close> is fetched, the retrieval
  returns, as label, the fifth column of that row minus 1 for 14 classes and the sixth
  column minus 1 for 28 classes (in the 64-bit integers of the data list).
\<close>

theorem label_selection:
  "(isl (init_dataset data_list base_dir D T num_classes transform_dict cache)
      \<longleftrightarrow> num_classes \<noteq> 14 \<and> num_classes \<noteq> 28)
   \<and> (\<forall>self row raw.
         init_dataset data_list base_dir D T num_classes transform_dict cache = Inr self
         \<and> py_index data_list idx = Inr row \<and> fetch_raw env self idx = Inr raw
         \<longrightarrow> (\<exists>jt it. getitem env self idx
                 = Inr (jt, it, if num_classes = 14 then row ! 4 - 1 else row ! 5 - 1)))"
proof (intro conjI allI impI)
  show "isl (init_dataset data_list base_dir D T num_classes transform_dict cache)
      \<longleftrightarrow> num_classes \<noteq> 14 \<and> num_classes \<noteq> 28"
    by (simp add: init_dataset_def)
next
  fix self row raw
  assume a: "init_dataset data_list base_dir D T num_classes transform_dict cache = Inr self
         \<and> py_index data_list idx = Inr row \<and> fetch_raw env self idx = Inr raw"
  note ds = init_dataset_Inr [of data_list base_dir D T num_classes transform_dict cache self]
  have cls: "self_num_classes self = 14 \<or> self_num_classes self = 28"
    using ds(3,6) a by simp
  have row: "py_index (self_data_list self) idx = Inr row"
    using ds(1) a by simp
  obtain j im where aug: "augment env self raw = (j, im)" by (cases "augment env self raw")
  have "getitem env self idx
         = Inr (if int (length j) < self_T self
                then (pad_joints (nat (self_T self - int (length j))) j,
                      pad_images (nat (self_T self - int (length j))) (scale_images im),
                      if self_num_classes self = 14 then row ! 4 - 1 else row ! 5 - 1)
                else (j, scale_images im,
                      if self_num_classes self = 14 then row ! 4 - 1 else row ! 5 - 1))"
    using a by (intro getitem_fetched [OF cls row _ aug]) simp
  moreover have "self_num_classes self = num_classes" using ds(3) a by simp
  ultimately show "\<exists>jt it. getitem env self idx
                 = Inr (jt, it, if num_classes = 14 then row ! 4 - 1 else row ! 5 - 1)"
    by (cases "int (length j) < self_T self") simp_all
qed


lemma getitem_Inr:
  assumes "getitem env self idx = Inr (jt, it, l)"
  shows "\<exists>nf raw. select_label self idx = Inr (Some l)
           \<and> np_index2 (self_data_list self) idx 6 = Inr nf
           \<and> fetch_raw env self idx = Inr raw"
  using assms by (auto simp: getitem_def Let_def split: sum.splits option.splits)

lemma py_index_pos:
  assumes "- int (length xs) \<le> i" "i < int (length xs)"
  shows "nat (i mod int (length xs)) < length xs"
proof -
  have "0 < int (length xs)" using assms by linarith
  then have "i mod int (length xs) < int (length xs)" "0 \<le> i mod int (length xs)"
    by simp_all
  then show ?thesis by linarith
qed

lemma py_index_map:
  "py_index (map f xs) i = (case py_index xs i of Inl e \<Rightarrow> Inl e | Inr x \<Rightarrow> Inr (f x))"
  by (simp add: py_index_def py_index_pos)

lemma py_index_update_other:
  assumes "0 \<le> c" "c \<noteq> int k"
  shows "py_index (r[k := v]) c = py_index r c"
  using assms by (auto simp: py_index_def)

lemma py_index_update_same:
  assumes "py_index r (int k) = Inr x"
  shows "py_index (r[k := v]) (int k) = Inr v"
  using assms by (simp add: py_index_def split: if_splits)

lemma np_index2_update_other:
  assumes "0 \<le> c" "c \<noteq> int k"
  shows "np_index2 (map (\<lambda>r. r[k := v]) a) i c = np_index2 a i c"
  by (simp add: np_index2_def py_index_map py_index_update_other [OF assms] split: sum.splits)

lemma np_index2_update_same:
  assumes "np_index2 a i (int k) = Inr nf"
  shows "np_index2 (map (\<lambda>r. r[k := v]) a) i (int k) = Inr v"
proof -
  obtain row where row: "py_index a i = Inr row" "py_index row (int k) = Inr nf"
    using assms by (auto simp: np_index2_def split: sum.splits)
  show ?thesis
    using row(1) py_index_update_same [OF row(2), of v]
    by (simp add: np_index2_def py_index_map)
qed

text \<open>
  Claim C8, as amended. With a cache attached, whenever the retrieval returns
  \<open>(jt, it, l)\<close>: the label \<open>l\<close> is the one read from the data-list row; the number of
  frames of \<open>jt\<close> is the larger of \<open>T\<close> and the number of frames of the loaded joint
  sequence (after the optional augmentation); and the frame count listed in the row
  (seventh column) has no influence: replacing it by any value \<open>v\<close> leaves the result
  unchanged.
\<close>

theorem frame_count_from_loaded_data:
  assumes "self_cache self = Some c" and "getitem env self idx = Inr (jt, it, l)"
  shows "getitem env (self\<lparr>self_data_list := map (\<lambda>r. r[6 := v]) (self_data_list self)\<rparr>) idx
           = Inr (jt, it, l)
       \<and> select_label self idx = Inr (Some l)
       \<and> (\<exists>raw. fetch_raw env self idx = Inr raw
              \<and> int (length jt) = max (self_T self) (int (length (fst (augment env self raw)))))"
proof -
  let ?self' = "self\<lparr>self_data_list := map (\<lambda>r. r[6 := v]) (self_data_list self)\<rparr>"
  obtain nf raw where lab: "select_label self idx = Inr (Some l)"
    and nf: "np_index2 (self_data_list self) idx 6 = Inr nf"
    and raw: "fetch_raw env self idx = Inr raw"
    using getitem_Inr [OF assms(2)] by blast
  obtain j im where aug: "augment env self raw = (j, im)" by (cases "augment env self raw")
  have val: "Inr (jt, it, l)
         = Inr (if int (length j) < self_T self
                then (pad_joints (nat (self_T self - int (length j))) j,
                      pad_images (nat (self_T self - int (length j))) (scale_images im), l)
                else (j, scale_images im, l))"
    using getitem_value [OF lab nf raw aug] assms(2) by simp
  have lab': "select_label ?self' idx = Inr (Some l)"
  proof -
    have 4: "np_index2 (map (\<lambda>r. r[6 := v]) (self_data_list self)) idx 4
             = np_index2 (self_data_list self) idx 4"
      using np_index2_update_other [of 4 6 v "self_data_list self" idx] by simp
    have 5: "np_index2 (map (\<lambda>r. r[6 := v]) (self_data_list self)) idx 5
             = np_index2 (self_data_list self) idx 5"
      using np_index2_update_other [of 5 6 v "self_data_list self" idx] by simp
    have "select_label ?self' idx = select_label self idx"
      by (simp add: select_label_def 4 5)
    then show ?thesis using lab by simp
  qed
  have nf': "np_index2 (self_data_list ?self') idx 6 = Inr v"
    using np_index2_update_same [of "self_data_list self" idx 6 nf v] nf by simp
  have raw': "fetch_raw env ?self' idx = Inr raw"
    using raw assms(1) np_index2_update_other [of 7 6 v "self_data_list self" idx]
    by (simp add: fetch_raw_def)
  have aug': "augment env ?self' raw = (j, im)"
    using aug by (simp add: augment_def)
  have 1: "getitem env ?self' idx = Inr (jt, it, l)"
    using getitem_value [OF lab' nf' raw' aug'] val by simp
  have "int (length jt) = max (self_T self) (int (length j))"
    using val by (auto simp: length_pad_joints split: if_splits)
  then have 3: "\<exists>raw. fetch_raw env self idx = Inr raw
              \<and> int (length jt) = max (self_T self) (int (length (fst (augment env self raw))))"
    using raw aug by auto
  from 1 lab 3 show ?thesis by (intro conjI)
qed

lemma cache0_fetch:
  "fetch_raw env0 (dataset0 T n (Some cache0)) 0
   = Inr ([[1, 2], [3, 4], [5, 6]], [[[[10, 20]]], [[[30, 40]]], [[[50, 60]]]])"
  by (simp add: fetch_raw_def dataset0_def cache0_def np_index2_def py_index_def)

lemma dataset0_init:
  "n = 14 \<or> n = 28 \<Longrightarrow>
   init_dataset [[1, 1, 3, 1, 5, 12, 10, 0]] ''data'' 2 T n td0 c = Inr (dataset0 T n c)"
  by (auto simp: init_dataset_def dataset0_def)

lemma dataset0_augment: "augment env0 (dataset0 T n c) raw = raw"
  by (simp add: augment_def dataset0_def td0_def)


text \<open>
  Claim C10 at a concrete input: three cached frames, \<open>T = 2\<close>.
\<close>

theorem no_truncation_witness:
  "\<exists>jt it l. getitem env0 (dataset0 2 14 (Some cache0)) 0 = Inr (jt, it, l)
           \<and> length jt = length [[1, 2], [3, 4], [5, 6 :: rat]]
           \<and> length it = length [[[[10, 20]]], [[[30, 40]]], [[[50, 60 :: uint8]]]]
           \<and> (td_aug td0 = None \<longrightarrow>
                 length jt = length (fst ([[1, 2], [3, 4], [5, 6 :: rat]],
                                          [[[[10, 20]]], [[[30, 40]]], [[[50, 60 :: uint8]]]]))
                 \<and> length it = length (snd ([[1, 2], [3, 4], [5, 6 :: rat]],
                                          [[[[10, 20]]], [[[30, 40]]], [[[50, 60 :: uint8]]]])))"
proof -
  have i: "init_dataset [[1, 1, 3, 1, 5, 12, 10, 0]] ''data'' 2 2 14 td0 (Some cache0)
           = Inr (dataset0 2 14 (Some cache0))"
    by (rule dataset0_init) simp
  show ?thesis
    by (rule no_truncation [OF i cache0_fetch dataset0_augment]) simp
qed

text \<open>
  Claim C7 at concrete inputs: class count 7 is refused; the row
  \<open>(1, 1, 3, 1, 5, 12, 10, 0)\<close> has label 4 with 14 classes and 11 with 28.
\<close>

theorem label_selection_witness:
  "isl (init_dataset [[1, 1, 3, 1, 5, 12, 10, 0]] ''data'' 2 5 7 td0 (Some cache0))
   \<and> (\<exists>jt it. getitem env0 (dataset0 5 14 (Some cache0)) 0 = Inr (jt, it, 4))
   \<and> (\<exists>jt it. getitem env0 (dataset0 5 28 (Some cache0)) 0 = Inr (jt, it, 11))"
proof -
  have r: "py_index [[1, 1, 3, 1, 5, 12, 10, 0 :: int64]] 0 = Inr [1, 1, 3, 1, 5, 12, 10, 0]"
    by (simp add: py_index_def)
  have 1: "isl (init_dataset [[1, 1, 3, 1, 5, 12, 10, 0]] ''data'' 2 5 7 td0 (Some cache0))"
    using label_selection [of "[[1, 1, 3, 1, 5, 12, 10, 0]]" "''data''" 2 5 7 td0 "Some cache0" 0 env0]
    by simp
  have 2: "\<exists>jt it. getitem env0 (dataset0 5 14 (Some cache0)) 0 = Inr (jt, it, 4)"
    using label_selection [of "[[1, 1, 3, 1, 5, 12, 10, 0]]" "''data''" 2 5 14 td0 "Some cache0" 0 env0]
      dataset0_init [of 14 5 "Some cache0"] r cache0_fetch [of 5 14]
    by simp
  have 3: "\<exists>jt it. getitem env0 (dataset0 5 28 (Some cache0)) 0 = Inr (jt, it, 11)"
    using label_selection [of "[[1, 1, 3, 1, 5, 12, 10, 0]]" "''data''" 2 5 28 td0 "Some cache0" 0 env0]
      dataset0_init [of 28 5 "Some cache0"] r cache0_fetch [of 5 28]
    by simp
  from 1 2 3 show ?thesis by (intro conjI)
qed

lemma getitem_cache0_5:
  "getitem env0 (dataset0 5 14 (Some cache0)) 0
   = Inr ([[1, 2], [3, 4], [5, 6], [0, 0], [0, 0]],
          scale_images [[[[10, 20]]], [[[30, 40]]], [[[50, 60]]]] @ [[[[0, 0]]], [[[0, 0]]]], 4)"
proof -
  have l: "select_label (dataset0 5 14 (Some cache0)) 0 = Inr (Some 4)"
    by (simp add: select_label_def dataset0_def np_index2_def py_index_def)
  have n: "np_index2 (self_data_list (dataset0 5 14 (Some cache0))) 0 6 = Inr 10"
    by (simp add: dataset0_def np_index2_def py_index_def)
  show ?thesis
    using getitem_value [OF l n cache0_fetch dataset0_augment]
    by (simp add: dataset0_def pad_joints_def pad_images_def scale_images_def numeral_eq_Suc)
qed

text \<open>
  Claim C8, as amended, at a concrete input: listing 3 frames instead of 10 changes
  nothing.
\<close>

theorem frame_count_from_loaded_data_witness:
  "getitem env0 ((dataset0 5 14 (Some cache0))
       \<lparr>self_data_list := map (\<lambda>r. r[6 := 3]) (self_data_list (dataset0 5 14 (Some cache0)))\<rparr>) 0
     = Inr ([[1, 2], [3, 4], [5, 6], [0, 0], [0, 0]],
          scale_images [[[[10, 20]]], [[[30, 40]]], [[[50, 60]]]] @ [[[[0, 0]]], [[[0, 0]]]], 4)
   \<and> select_label (dataset0 5 14 (Some cache0)) 0 = Inr (Some 4)"
proof -
  have c: "self_cache (dataset0 5 14 (Some cache0)) = Some cache0"
    by (simp add: dataset0_def)
  from frame_count_from_loaded_data [OF c getitem_cache0_5, of 3] show ?thesis by blast
qed

text \<open>
  Claim C8 as stated fails. The row lists 10 frames, the cached trial has 3 and \<open>T = 5\<close>.
  The code pads to 5 frames, because it takes the frame count from the loaded joint
  sequence; with the listed count (10, not below \<open>T\<close>) nothing would be padded and 3
  frames would be returned.
\<close>

theorem frame_count_counterexample:
  "map_sum id (\<lambda>(jt, it, l). (length jt, length it, l))
       (getitem env0 (dataset0 5 14 (Some cache0)) 0) = Inr (5, 5, 4)
   \<and> map_sum id (\<lambda>(jt, it, l). (length jt, length it, l))
       (getitem_listed_count env0 (dataset0 5 14 (Some cache0)) 0) = Inr (3, 3, 4)"
proof -
  have l: "select_label (dataset0 5 14 (Some cache0)) 0 = Inr (Some 4)"
    by (simp add: select_label_def dataset0_def np_index2_def py_index_def)
  have n: "np_index2 (self_data_list (dataset0 5 14 (Some cache0))) 0 6 = Inr 10"
    by (simp add: dataset0_def np_index2_def py_index_def)
  have 1: "map_sum id (\<lambda>(jt, it, l). (length jt, length it, l))
       (getitem env0 (dataset0 5 14 (Some cache0)) 0) = Inr (5, 5, 4)"
    by (simp add: getitem_cache0_5 scale_images_def)
  have 2: "map_sum id (\<lambda>(jt, it, l). (length jt, length it, l))
       (getitem_listed_count env0 (dataset0 5 14 (Some cache0)) 0) = Inr (3, 3, 4)"
    by (simp add: getitem_listed_count_def l n cache0_fetch dataset0_augment Let_def
          scale_images_def, simp add: dataset0_def)
  from 1 2 show ?thesis ..
qed

section \<open>The joint loader\<close>




















lemma load_joints_example:
  "load_joints env_joints0 ''skeletons_image.txt'' [0, 1] 8 = Inr [replicate 22 0, replicate 22 2]"
  by code_simp

end
